theory Spec2Isabelle
  imports Complex_Main
begin

section \<open>The ship model of src/app/js/shipyard/factory-ship.js\<close>

text \<open>
  The factory \<open>Ship\<close> keeps a ship as one mutable object: three arrays of slots
  (\<open>standard\<close>, \<open>hardpoints\<close>, \<open>internal\<close>), three slot-like objects (\<open>bulkheads\<close>,
  \<open>cargoHatch\<close> and the hull entry \<open>c\<close>), five priority bands and the aggregated
  statistics. The embedding passes the ship explicitly: every method takes the ship and
  returns the updated one.

  Conventions of the embedding.
  \<^item> JavaScript numbers are modelled as exact reals: rounding of the IEEE doubles is not
    modelled, so every equation between aggregates below is an equation of exact
    arithmetic.
  \<^item> A property that can be \<open>null\<close> or \<open>undefined\<close> is an \<open>option\<close>; \<open>None\<close> stands for
    both (the source only tests such properties for truthiness or with \<open>!=\<close>, which do not
    tell them apart). For \<open>enabled\<close>, \<open>None\<close> also stands for \<open>NaN\<close>, which is falsy and
    loosely unequal to both booleans, as \<open>undefined\<close> is; \<open>1\<close> and \<open>0\<close> read as
    \<open>true\<close> and \<open>false\<close>.
  \<^item> A \<open>TypeError\<close> thrown by the source (a property read from \<open>null\<close> or
    \<open>undefined\<close>) is the result \<open>Inl TypeError\<close>; the half-updated ship the exception
    leaves behind is not a result. \<open>Inl NotModelled\<close> marks the places where the source
    goes on with \<open>NaN\<close> or with a coercion that the embedding does not follow.
  \<^item> Component records come from the catalogue, which is not part of this file. Following
    the interface description they carry a group tag, cost, mass, power draw, capacity,
    DPS, shield multiplier, armour bonus, passive flag, maximum fuel and generator
    output; each numeric field is taken to hold a number, so that a truthiness test such
    as \<open>n.cost\<close> is the test \<open>cost n \<noteq> 0\<close> and \<open>old.mass || 0\<close> is \<open>mass old\<close>.
\<close>

subsection \<open>Data\<close>

datatype error = TypeError | NotModelled

record component =
  grp :: string
  cost :: real
  mass :: real
  cpower :: real
  capacity :: real
  armouradd :: real
  shieldmul :: real
  dps :: real
  cpassive :: bool
  pGen :: real
  maxfuel :: real

text \<open>A slot id is a catalogue code (a string); the bulkhead entry keeps an index.\<close>

datatype ident = Code string | Index nat

datatype slot_type = SYS | ENG | WEP | SHIP

text \<open>
  One record for every slot-like object. Fields the source calls \<open>id\<close>, \<open>c\<close> and
  \<open>type\<close> are \<open>s_id\<close>, \<open>s_c\<close> and \<open>stype\<close>.
\<close>

record slot =
  s_id :: "ident option"
  s_c :: "component option"
  incCost :: "bool option"
  maxClass :: "nat option"
  cat :: "nat option"
  enabled :: "bool option"
  priority :: "nat option"
  stype :: "slot_type option"
  discountedCost :: "real option"

record band =
  deployed :: real
  retracted :: real
  retOnly :: real
  retractedSum :: "real option"
  deployedSum :: "real option"

text \<open>
  The ship. \<open>ship_id\<close> is the source's \<open>id\<close> and \<open>shipItem\<close> its hull entry \<open>c\<close>.
  The nine statistics from \<open>fuelCapacity\<close> to \<open>totalDps\<close> are the ones \<open>buildWith\<close>
  assigns before anything reads them; the constructor leaves them unset, and the
  embedding starts them at the values \<open>buildWith\<close> gives them. The statistics after them
  are only written by the \<open>update...\<close> methods and are \<open>None\<close> until then.
\<close>

record ship =
  ship_id :: string
  hullMass :: real
  hullCost :: real
  baseArmour :: real
  baseShieldStrength :: real
  speed :: real
  boost :: real
  pipSpeed :: real
  standard :: "slot list"
  hardpoints :: "slot list"
  internal :: "slot list"
  bulkheads :: slot
  cargoHatch :: slot
  shipItem :: slot
  shipCostMultiplier :: real
  componentCostMultiplier :: real
  priorityBands :: "band list"
  fuelCapacity :: real
  cargoCapacity :: real
  ladenMass :: real
  armourAdded :: real
  armourMultiplier :: real
  shieldMultiplier :: real
  totalCost :: real
  unladenMass :: real
  totalDps :: real
  armour :: "real option"
  powerAvailable :: "real option"
  powerRetracted :: "real option"
  powerDeployed :: "real option"
  topSpeed :: "real option"
  topBoost :: "real option"
  shieldStrength :: "real option"
  unladenRange :: "real option"
  fullTankRange :: "real option"
  ladenRange :: "real option"
  unladenTotalRange :: "real option"
  ladenTotalRange :: "real option"
  maxJumpCount :: "int option"

text \<open>
  The injected collaborators: the component catalogue \<open>Components\<close>, the table
  \<open>ArmourMultiplier\<close> and the four formulas. None of them is defined in this file; they
  are parameters of the embedding.
\<close>

record env =
  cat_standard :: "nat \<Rightarrow> string \<Rightarrow> component option"
  cat_hardpoints :: "string \<Rightarrow> component option"
  cat_internal :: "string \<Rightarrow> component option"
  cat_bulkheads :: "string \<Rightarrow> nat \<Rightarrow> component"
  cat_cargoHatch :: component
  ArmourMultiplier :: "nat \<Rightarrow> real"
  calcShieldStrength :: "real \<Rightarrow> real \<Rightarrow> component \<Rightarrow> real \<Rightarrow> real"
  calcJumpRange :: "real \<Rightarrow> component \<Rightarrow> real \<Rightarrow> real"
  calcTotalRange :: "real \<Rightarrow> component \<Rightarrow> real \<Rightarrow> real"
  calcSpeed :: "real \<Rightarrow> real \<Rightarrow> real \<Rightarrow> component option \<Rightarrow> real \<Rightarrow> real \<times> real"

text \<open>
  A slot object is named by where the ship keeps it; two references are the same object
  exactly when they are equal.
\<close>

datatype slot_ref = Std nat | Hp nat | Intl nat | Bulkheads | CargoHatch | ShipItem

fun nth_opt :: "'a list \<Rightarrow> nat \<Rightarrow> 'a option" where
  "nth_opt xs i = (if i < length xs then Some (xs ! i) else None)"

fun get_slot :: "ship \<Rightarrow> slot_ref \<Rightarrow> slot option" where
  "get_slot s (Std i) = nth_opt (standard s) i"
| "get_slot s (Hp i) = nth_opt (hardpoints s) i"
| "get_slot s (Intl i) = nth_opt (internal s) i"
| "get_slot s Bulkheads = Some (bulkheads s)"
| "get_slot s CargoHatch = Some (cargoHatch s)"
| "get_slot s ShipItem = Some (shipItem s)"

fun put_slot :: "slot_ref \<Rightarrow> slot \<Rightarrow> ship \<Rightarrow> ship" where
  "put_slot (Std i) x s = s\<lparr>standard := (standard s)[i := x]\<rparr>"
| "put_slot (Hp i) x s = s\<lparr>hardpoints := (hardpoints s)[i := x]\<rparr>"
| "put_slot (Intl i) x s = s\<lparr>internal := (internal s)[i := x]\<rparr>"
| "put_slot Bulkheads x s = s\<lparr>bulkheads := x\<rparr>"
| "put_slot CargoHatch x s = s\<lparr>cargoHatch := x\<rparr>"
| "put_slot ShipItem x s = s\<lparr>shipItem := x\<rparr>"

definition bindE :: "error + 'a \<Rightarrow> ('a \<Rightarrow> error + 'b) \<Rightarrow> error + 'b" where
  "bindE m f = (case m of Inl e \<Rightarrow> Inl e | Inr x \<Rightarrow> f x)"

subsection \<open>Power usage and the priority bands\<close>

datatype usage = UDeployed | URetracted

text \<open>\<open>powerUsageType\<close>: a passive component, and any slot that is not a hardpoint, draws retracted power.\<close>

definition powerUsageType :: "slot \<Rightarrow> component option \<Rightarrow> usage" where
  "powerUsageType slot component =
     (if (case component of Some k \<Rightarrow> cpassive k | None \<Rightarrow> False) then URetracted
      else if cat slot \<noteq> Some 1 then URetracted else UDeployed)"

definition bump :: "usage \<Rightarrow> real \<Rightarrow> band \<Rightarrow> band" where
  "bump u x b = (case u of UDeployed \<Rightarrow> b\<lparr>deployed := deployed b + x\<rparr>
                          | URetracted \<Rightarrow> b\<lparr>retracted := retracted b + x\<rparr>)"

text \<open>
  \<open>this.priorityBands[p][u] += x\<close>: with \<open>p\<close> undefined or beyond the array the band is
  \<open>undefined\<close> and the property access throws.
\<close>

definition addBand :: "nat option \<Rightarrow> usage \<Rightarrow> real \<Rightarrow> ship \<Rightarrow> error + ship" where
  "addBand p u x s =
     (case p of None \<Rightarrow> Inl TypeError
      | Some i \<Rightarrow>
          if i < length (priorityBands s)
          then Inr (s\<lparr>priorityBands := (priorityBands s)[i := bump u x (priorityBands s ! i)]\<rparr>)
          else Inl TypeError)"

text \<open>The loop of \<open>updatePower\<close>, with \<open>prevRetracted\<close> and \<open>prevDeployed\<close> as accumulators.\<close>

fun sumBands :: "real \<Rightarrow> real \<Rightarrow> band list \<Rightarrow> band list \<times> real \<times> real" where
  "sumBands pr pd [] = ([], pr, pd)"
| "sumBands pr pd (b # bs) =
     (let r = pr + retracted b + retOnly b;
          d = pd + deployed b + retracted b;
          rest = sumBands r d bs
      in (b\<lparr>retractedSum := Some r, deployedSum := Some d\<rparr> # fst rest, snd rest))"

definition updatePower :: "ship \<Rightarrow> error + ship" where
  "updatePower s =
     (let res = sumBands 0 0 (priorityBands s);
          s1 = s\<lparr>priorityBands := fst res\<rparr>
      in case nth_opt (standard s1) 0 of
           None \<Rightarrow> Inl TypeError
         | Some pp \<Rightarrow>
             (case s_c pp of
                None \<Rightarrow> Inl TypeError
              | Some k \<Rightarrow> Inr (s1\<lparr>powerAvailable := Some (pGen k),
                                  powerRetracted := Some (fst (snd res)),
                                  powerDeployed := Some (snd (snd res))\<rparr>)))"

text \<open>
  \<open>a >= b\<close> on values that may be \<open>undefined\<close>: the comparison is false as soon as one
  side is not a number.
\<close>

definition js_ge :: "real option \<Rightarrow> real option \<Rightarrow> bool" where
  "js_ge a b = (case a of None \<Rightarrow> False | Some x \<Rightarrow> (case b of None \<Rightarrow> False | Some y \<Rightarrow> x \<ge> y))"

text \<open>\<open>getSlotStatus\<close>: 0 no status, 1 disabled, 2 offline, 3 online.\<close>

definition bandOf :: "ship \<Rightarrow> nat option \<Rightarrow> error + band" where
  "bandOf s p = (case p of None \<Rightarrow> Inl TypeError
                 | Some i \<Rightarrow> (case nth_opt (priorityBands s) i of None \<Rightarrow> Inl TypeError | Some b \<Rightarrow> Inr b))"

definition getSlotStatus :: "ship \<Rightarrow> slot_ref \<Rightarrow> bool \<Rightarrow> error + nat" where
  "getSlotStatus s r dep =
     (case get_slot s r of
        None \<Rightarrow> Inl TypeError
      | Some slot \<Rightarrow>
          (case s_c slot of
             None \<Rightarrow> Inr 0
           | Some k \<Rightarrow>
               if enabled slot \<noteq> Some True then Inr 1
               else if dep then
                 bindE (bandOf s (priority slot))
                   (\<lambda>b. Inr (if js_ge (deployedSum b) (powerAvailable s) then 2 else 3))
               else if cat slot = Some 1 \<and> \<not> cpassive k then Inr 0
               else
                 bindE (bandOf s (priority slot))
                   (\<lambda>b. Inr (if js_ge (retractedSum b) (powerAvailable s) then 2 else 3))))"

subsection \<open>Recomputing the derived statistics\<close>

text \<open>lodash's \<open>_.findIndex\<close>: the first index whose element satisfies the predicate.\<close>

fun findIndex :: "('a \<Rightarrow> bool) \<Rightarrow> 'a list \<Rightarrow> nat option" where
  "findIndex P [] = None"
| "findIndex P (x # xs) =
     (if P x then Some 0 else (case findIndex P xs of None \<Rightarrow> None | Some i \<Rightarrow> Some (Suc i)))"

definition matchesGroup :: "string \<Rightarrow> slot \<Rightarrow> bool" where
  "matchesGroup g slot =
     (case s_c slot of
        None \<Rightarrow> False
      | Some k \<Rightarrow>
          if g = ''sg'' \<or> g = ''psg'' then grp k = ''sg'' \<or> grp k = ''psg''
          else grp k = g)"

text \<open>\<open>findInternalByGroup\<close> returns the slot object; here its index in \<open>internal\<close>.\<close>

definition findInternalByGroup :: "ship \<Rightarrow> string \<Rightarrow> nat option" where
  "findInternalByGroup s g = findIndex (matchesGroup g) (internal s)"

definition updateTopSpeed :: "env \<Rightarrow> ship \<Rightarrow> error + ship" where
  "updateTopSpeed G s =
     (case nth_opt (standard s) 1 of
        None \<Rightarrow> Inl TypeError
      | Some th \<Rightarrow>
          (let speeds = calcSpeed G (unladenMass s + fuelCapacity s) (speed s) (boost s) (s_c th) (pipSpeed s)
           in Inr (s\<lparr>topSpeed := Some (fst speeds), topBoost := Some (snd speeds)\<rparr>)))"

definition updateShieldStrength :: "env \<Rightarrow> ship \<Rightarrow> ship" where
  "updateShieldStrength G s =
     s\<lparr>shieldStrength := Some
        (case findInternalByGroup s ''sg'' of
           None \<Rightarrow> 0
         | Some j \<Rightarrow>
             (case s_c (internal s ! j) of
                None \<Rightarrow> 0
              | Some k \<Rightarrow>
                  if enabled (internal s ! j) = Some True
                  then calcShieldStrength G (hullMass s) (baseShieldStrength s) k (shieldMultiplier s)
                  else 0))\<rparr>"

text \<open>
  \<open>Math.ceil(fuelCapacity / fsd.maxfuel)\<close> is not a finite number when \<open>maxfuel\<close> is 0;
  \<open>maxJumpCount\<close> is \<open>None\<close> then.
\<close>

definition updateJumpStats :: "env \<Rightarrow> ship \<Rightarrow> error + ship" where
  "updateJumpStats G s =
     (case nth_opt (standard s) 2 of
        None \<Rightarrow> Inl TypeError
      | Some sl \<Rightarrow>
          (case s_c sl of
             None \<Rightarrow> Inl TypeError
           | Some fsd \<Rightarrow>
               Inr (s\<lparr>unladenRange := Some (calcJumpRange G (unladenMass s + maxfuel fsd) fsd (fuelCapacity s)),
                      fullTankRange := Some (calcJumpRange G (unladenMass s + fuelCapacity s) fsd (fuelCapacity s)),
                      ladenRange := Some (calcJumpRange G (ladenMass s) fsd (fuelCapacity s)),
                      unladenTotalRange := Some (calcTotalRange G (unladenMass s) fsd (fuelCapacity s)),
                      ladenTotalRange := Some (calcTotalRange G (unladenMass s + cargoCapacity s) fsd (fuelCapacity s)),
                      maxJumpCount := (if maxfuel fsd = 0 then None
                                       else Some \<lceil>fuelCapacity s / maxfuel fsd\<rceil>)\<rparr>)))"

subsection \<open>updateStats\<close>

text \<open>
  The two halves of \<open>updateStats\<close>: the old component leaves, the new one arrives. Each
  returns whether it changed a power band together with the ship.
\<close>

definition statsRemove :: "slot \<Rightarrow> component \<Rightarrow> ship \<Rightarrow> error + (bool \<times> ship)" where
  "statsRemove slot old s =
     (let s1 = (if grp old = ''ft'' then s\<lparr>fuelCapacity := fuelCapacity s - capacity old\<rparr>
                else if grp old = ''cr'' then s\<lparr>cargoCapacity := cargoCapacity s - capacity old\<rparr>
                else if grp old = ''hr'' then s\<lparr>armourAdded := armourAdded s - armouradd old\<rparr>
                else if grp old = ''sb''
                  then s\<lparr>shieldMultiplier := shieldMultiplier s
                            - (if enabled slot = Some True then shieldmul old else 0)\<rparr>
                else s);
          s2 = (if incCost slot = Some True \<and> cost old \<noteq> 0
                then s1\<lparr>totalCost := totalCost s1 - cost old * componentCostMultiplier s1\<rparr>
                else s1)
      in bindE (if cpower old \<noteq> 0 \<and> enabled slot = Some True
                then bindE (addBand (priority slot) (powerUsageType slot (Some old)) (- cpower old) s2)
                       (\<lambda>s3. Inr (True, if dps old \<noteq> 0 then s3\<lparr>totalDps := totalDps s3 - dps old\<rparr> else s3))
                else Inr (False, s2))
           (\<lambda>r. Inr (fst r, (snd r)\<lparr>unladenMass := unladenMass (snd r) - mass old\<rparr>)))"

definition statsAdd :: "slot \<Rightarrow> component \<Rightarrow> ship \<Rightarrow> error + (bool \<times> ship)" where
  "statsAdd slot n s =
     (let s1 = (if grp n = ''ft'' then s\<lparr>fuelCapacity := fuelCapacity s + capacity n\<rparr>
                else if grp n = ''cr'' then s\<lparr>cargoCapacity := cargoCapacity s + capacity n\<rparr>
                else if grp n = ''hr'' then s\<lparr>armourAdded := armourAdded s + armouradd n\<rparr>
                else if grp n = ''sb''
                  then s\<lparr>shieldMultiplier := shieldMultiplier s
                            + (if enabled slot = Some True then shieldmul n else 0)\<rparr>
                else s);
          s2 = (if incCost slot = Some True \<and> cost n \<noteq> 0
                then s1\<lparr>totalCost := totalCost s1 + cost n * componentCostMultiplier s1\<rparr>
                else s1)
      in bindE (if cpower n \<noteq> 0 \<and> enabled slot = Some True
                then bindE (addBand (priority slot) (powerUsageType slot (Some n)) (cpower n) s2)
                       (\<lambda>s3. Inr (True, if dps n \<noteq> 0 then s3\<lparr>totalDps := totalDps s3 + dps n\<rparr> else s3))
                else Inr (False, s2))
           (\<lambda>r. Inr (fst r, (snd r)\<lparr>unladenMass := unladenMass (snd r) + mass n\<rparr>)))"

text \<open>\<open>Math.round\<close> rounds to the nearest integer, a half upwards.\<close>

definition js_round :: "real \<Rightarrow> real" where
  "js_round x = of_int \<lfloor>x + 1 / 2\<rfloor>"

definition updateStats :: "env \<Rightarrow> slot_ref \<Rightarrow> component option \<Rightarrow> component option \<Rightarrow> bool \<Rightarrow> ship \<Rightarrow> error + ship" where
  "updateStats G r n old preventUpdate s =
     (case get_slot s r of
        None \<Rightarrow> Inl TypeError
      | Some slot \<Rightarrow>
          bindE (case old of None \<Rightarrow> Inr (False, s) | Some k \<Rightarrow> statsRemove slot k s)
            (\<lambda>r1. bindE (case n of None \<Rightarrow> Inr (False, snd r1) | Some k \<Rightarrow> statsAdd slot k (snd r1))
              (\<lambda>r2.
                 let s2 = snd r2;
                     s3 = s2\<lparr>ladenMass := unladenMass s2 + cargoCapacity s2 + fuelCapacity s2,
                              armour := Some (armourAdded s2 + js_round (baseArmour s2 * armourMultiplier s2))\<rparr>;
                     powerChange = (r = Std 0 \<or> fst r1 \<or> fst r2)
                 in if preventUpdate then Inr s3
                    else bindE (if powerChange then updatePower s3 else Inr s3)
                           (\<lambda>s4. bindE (updateTopSpeed G s4)
                              (\<lambda>s5. bindE (updateJumpStats G s5)
                                 (\<lambda>s6. Inr (updateShieldStrength G s6)))))))"

subsection \<open>use and useBulkhead\<close>

text \<open>
  \<open>slot.id != id\<close>. Two codes or two indices differ when they are different values; a
  code against an index would be compared as numbers, which the embedding does not
  follow.
\<close>

fun loose_ne :: "ident option \<Rightarrow> ident option \<Rightarrow> error + bool" where
  "loose_ne None None = Inr False"
| "loose_ne None (Some b) = Inr True"
| "loose_ne (Some a) None = Inr True"
| "loose_ne (Some (Code a)) (Some (Code b)) = Inr (a \<noteq> b)"
| "loose_ne (Some (Index a)) (Some (Index b)) = Inr (a \<noteq> b)"
| "loose_ne (Some (Code a)) (Some (Index b)) = Inl NotModelled"
| "loose_ne (Some (Index a)) (Some (Code b)) = Inl NotModelled"

definition uniqueGroup :: "string \<Rightarrow> bool" where
  "uniqueGroup g = (g \<in> set [''psg'', ''sg'', ''rf'', ''fs''])"

definition emptied :: "slot \<Rightarrow> slot" where
  "emptied sl = sl\<lparr>s_id := None, s_c := None, discountedCost := Some 0\<rparr>"

text \<open>
  The first half of \<open>use\<close>: for an internal slot receiving a component of a unique group,
  the slot that \<open>findInternalByGroup\<close> returns is vacated, unless updates are suppressed
  or it is the target itself.
\<close>

definition vacateSimilar :: "env \<Rightarrow> slot_ref \<Rightarrow> slot \<Rightarrow> component option \<Rightarrow> bool \<Rightarrow> ship \<Rightarrow> error + ship" where
  "vacateSimilar G r slot component preventUpdate s =
     (case component of
        None \<Rightarrow> Inr s
      | Some k \<Rightarrow>
          if cat slot = Some 2 \<and> uniqueGroup (grp k) then
            (case findInternalByGroup s (grp k) of
               None \<Rightarrow> Inr s
             | Some j \<Rightarrow>
                 if \<not> preventUpdate \<and> Intl j \<noteq> r then
                   bindE (updateStats G (Intl j) None (s_c (internal s ! j)) False s)
                     (\<lambda>s1. Inr (s1\<lparr>internal := (internal s1)[j := emptied (internal s1 ! j)]\<rparr>))
                 else Inr s)
          else Inr s)"

definition newCost :: "component option \<Rightarrow> real \<Rightarrow> real" where
  "newCost component m =
     (case component of None \<Rightarrow> 0 | Some k \<Rightarrow> if cost k \<noteq> 0 then cost k * m else 0)"

definition use :: "env \<Rightarrow> slot_ref \<Rightarrow> ident option \<Rightarrow> component option \<Rightarrow> bool \<Rightarrow> ship \<Rightarrow> error + ship" where
  "use G r ident component preventUpdate s =
     (case get_slot s r of
        None \<Rightarrow> Inl TypeError
      | Some slot \<Rightarrow>
          bindE (loose_ne (s_id slot) ident)
            (\<lambda>different.
               if \<not> different then Inr s
               else bindE (vacateSimilar G r slot component preventUpdate s)
                      (\<lambda>s1. case get_slot s1 r of
                               None \<Rightarrow> Inl TypeError
                             | Some slot1 \<Rightarrow>
                                 updateStats G r component (s_c slot1) preventUpdate
                                   (put_slot r
                                      (slot1\<lparr>s_id := ident, s_c := component,
                                             discountedCost := Some (newCost component (componentCostMultiplier s1))\<rparr>)
                                      s1))))"

definition useBulkhead :: "env \<Rightarrow> nat \<Rightarrow> bool \<Rightarrow> ship \<Rightarrow> error + ship" where
  "useBulkhead G index preventUpdate s =
     (let oldBulkhead = s_c (bulkheads s);
          k = cat_bulkheads G (ship_id s) index
      in updateStats G Bulkheads (Some k) oldBulkhead preventUpdate
           (s\<lparr>bulkheads := (bulkheads s)\<lparr>s_id := Some (Index index), s_c := Some k,
                                          discountedCost := Some (cost k * componentCostMultiplier s)\<rparr>,
               armourMultiplier := ArmourMultiplier G index\<rparr>))"

subsection \<open>Toggles, priorities and discounts\<close>

text \<open>
  \<open>setCostIncluded\<close>. An item without a \<open>discountedCost\<close> (the cargo hatch, or a slot
  before the first build) would add \<open>undefined\<close> to the total.
\<close>

definition setCostIncluded :: "slot_ref \<Rightarrow> bool \<Rightarrow> ship \<Rightarrow> error + ship" where
  "setCostIncluded r included s =
     (case get_slot s r of
        None \<Rightarrow> Inl TypeError
      | Some item \<Rightarrow>
          bindE (if incCost item \<noteq> Some included \<and> s_c item \<noteq> None
                 then (case discountedCost item of
                         None \<Rightarrow> Inl NotModelled
                       | Some d \<Rightarrow> Inr (s\<lparr>totalCost := totalCost s + (if included then d else - d)\<rparr>))
                 else Inr s)
            (\<lambda>s1. Inr (put_slot r (item\<lparr>incCost := Some included\<rparr>) s1)))"

definition setSlotEnabled :: "env \<Rightarrow> slot_ref \<Rightarrow> bool \<Rightarrow> ship \<Rightarrow> error + ship" where
  "setSlotEnabled G r en s =
     (case get_slot s r of
        None \<Rightarrow> Inl TypeError
      | Some slot \<Rightarrow>
          if enabled slot \<noteq> Some en then
            (let s1 = put_slot r (slot\<lparr>enabled := Some en\<rparr>) s
             in case s_c slot of
                  None \<Rightarrow> Inr s1
                | Some k \<Rightarrow>
                    bindE (addBand (priority slot) (powerUsageType slot (Some k))
                             (if en then cpower k else - cpower k) s1)
                      (\<lambda>s2. updatePower
                         (if grp k = ''sg'' \<or> grp k = ''psg'' then updateShieldStrength G s2
                          else if grp k = ''sb''
                            then updateShieldStrength G
                                   (s2\<lparr>shieldMultiplier := shieldMultiplier s2 + shieldmul k * (if en then 1 else - 1)\<rparr>)
                          else if dps k \<noteq> 0
                            then s2\<lparr>totalDps := totalDps s2 + dps k * (if en then 1 else - 1)\<rparr>
                          else s2)))
          else Inr s)"

text \<open>
  \<open>changePriority\<close> returns a boolean; the ship is returned with it. The range test comes
  before the slot is touched.
\<close>

definition changePriority :: "slot_ref \<Rightarrow> int \<Rightarrow> ship \<Rightarrow> error + (bool \<times> ship)" where
  "changePriority r newPriority s =
     (if newPriority \<ge> 0 \<and> newPriority < int (length (priorityBands s)) then
        (case get_slot s r of
           None \<Rightarrow> Inl TypeError
         | Some slot \<Rightarrow>
             (let oldPriority = priority slot;
                  slot1 = slot\<lparr>priority := Some (nat newPriority)\<rparr>;
                  s1 = put_slot r slot1 s
              in if enabled slot1 = Some True then
                   (case s_c slot1 of
                      None \<Rightarrow> Inl TypeError
                    | Some k \<Rightarrow>
                        bindE (addBand oldPriority (powerUsageType slot1 (s_c slot1)) (- cpower k) s1)
                          (\<lambda>s2. bindE (addBand (Some (nat newPriority)) (powerUsageType slot1 (s_c slot1)) (cpower k) s2)
                             (\<lambda>s3. bindE (updatePower s3) (\<lambda>s4. Inr (True, s4)))))
                 else Inr (True, s1)))
      else Inr (False, s))"

text \<open>
  \<open>applyDiscounts\<close> walks \<open>costList\<close>: the hull entry, the internal, standard and
  hardpoint slots, the bulkheads. \<open>discountItem\<close> is the assignment to one item,
  \<open>itemTotal\<close> what the item then adds to the running total.
\<close>

definition hasCost :: "slot \<Rightarrow> bool" where
  "hasCost item = (case s_c item of None \<Rightarrow> False | Some k \<Rightarrow> cost k \<noteq> 0)"

definition discountItem :: "real \<Rightarrow> real \<Rightarrow> slot \<Rightarrow> slot" where
  "discountItem sm cm item =
     (case s_c item of
        None \<Rightarrow> item
      | Some k \<Rightarrow>
          if cost k \<noteq> 0
          then item\<lparr>discountedCost := Some (cost k * (if stype item = Some SHIP then sm else cm))\<rparr>
          else item)"

definition itemTotal :: "slot \<Rightarrow> real" where
  "itemTotal item =
     (if hasCost item \<and> incCost item = Some True
      then (case discountedCost item of None \<Rightarrow> 0 | Some d \<Rightarrow> d) else 0)"

fun discountLoop :: "real \<Rightarrow> real \<Rightarrow> real \<Rightarrow> slot list \<Rightarrow> slot list \<times> real" where
  "discountLoop sm cm tot [] = ([], tot)"
| "discountLoop sm cm tot (item # items) =
     (let item1 = discountItem sm cm item;
          rest = discountLoop sm cm (tot + itemTotal item1) items
      in (item1 # fst rest, snd rest))"

definition applyDiscounts :: "real \<Rightarrow> real \<Rightarrow> ship \<Rightarrow> ship" where
  "applyDiscounts sm cm s =
     (let r0 = discountLoop sm cm 0 [shipItem s];
          r1 = discountLoop sm cm (snd r0) (internal s);
          r2 = discountLoop sm cm (snd r1) (standard s);
          r3 = discountLoop sm cm (snd r2) (hardpoints s);
          r4 = discountLoop sm cm (snd r3) [bulkheads s]
      in s\<lparr>shipItem := hd (fst r0), internal := fst r1, standard := fst r2,
            hardpoints := fst r3, bulkheads := hd (fst r4),
            shipCostMultiplier := sm, componentCostMultiplier := cm, totalCost := snd r4\<rparr>)"

subsection \<open>buildWith and the constructor\<close>

text \<open>
  The selection \<open>comps\<close>: a bulkhead index (0 when the property is absent or 0) and, per
  slot group, the ids of the components. \<open>None\<close> in a list is an entry that installs
  nothing: \<open>null\<close> or a missing entry, and for hardpoints and internal slots also the
  number 0. (\<open>use\<close> with such an id on a slot that has just been reset does nothing,
  whatever the catalogue returns for it.)
\<close>

record comps =
  c_bulkheads :: nat
  c_standard :: "string option list"
  c_hardpoints :: "string option list"
  c_internal :: "string option list"

definition entryAt :: "string option list \<Rightarrow> nat \<Rightarrow> string option" where
  "entryAt xs i = (if i < length xs then xs ! i else None)"

text \<open>\<open>enabled ? enabled[k] * 1 : true\<close>; a missing entry gives \<open>NaN\<close>.\<close>

definition enabledAt :: "bool list option \<Rightarrow> nat \<Rightarrow> bool option" where
  "enabledAt en k = (case en of None \<Rightarrow> Some True | Some es \<Rightarrow> nth_opt es k)"

text \<open>\<open>priorities && priorities[k] ? priorities[k] * 1 : 0\<close>.\<close>

definition priorityAt :: "nat list option \<Rightarrow> nat \<Rightarrow> nat" where
  "priorityAt priorities k =
     (case priorities of None \<Rightarrow> 0 | Some ps \<Rightarrow> if k < length ps then ps ! k else 0)"

definition resetSlot :: "nat \<Rightarrow> slot_type \<Rightarrow> bool option \<Rightarrow> nat \<Rightarrow> slot \<Rightarrow> slot" where
  "resetSlot ct ty en pr sl =
     sl\<lparr>cat := Some ct, enabled := en, priority := Some pr, stype := Some ty,
        s_c := None, s_id := None, discountedCost := Some 0\<rparr>"

fun forEach :: "nat list \<Rightarrow> (nat \<Rightarrow> ship \<Rightarrow> error + ship) \<Rightarrow> ship \<Rightarrow> error + ship" where
  "forEach [] f s = Inr s"
| "forEach (i # js) f s = bindE (f i s) (forEach js f)"

definition buildStandard :: "env \<Rightarrow> comps option \<Rightarrow> nat list option \<Rightarrow> bool list option \<Rightarrow> nat \<Rightarrow> ship \<Rightarrow> error + ship" where
  "buildStandard G cs priorities en i s =
     (let s1 = s\<lparr>standard := (standard s)[i := resetSlot 0 SYS (enabledAt en (i + 1))
                                                 (priorityAt priorities (i + 1)) (standard s ! i)]\<rparr>
      in case cs of
           None \<Rightarrow> Inr s1
         | Some sel \<Rightarrow>
             (case entryAt (c_standard sel) i of
                None \<Rightarrow> Inr s1
              | Some x \<Rightarrow> use G (Std i) (Some (Code x)) (cat_standard G i x) True s1))"

text \<open>\<open>hps[i].maxClass ? 'WEP' : 'SYS'\<close>.\<close>

definition hpType :: "slot \<Rightarrow> slot_type" where
  "hpType sl = (case maxClass sl of None \<Rightarrow> SYS | Some m \<Rightarrow> if m \<noteq> 0 then WEP else SYS)"

definition buildHardpoint :: "env \<Rightarrow> comps option \<Rightarrow> nat list option \<Rightarrow> bool list option \<Rightarrow> nat \<Rightarrow> nat \<Rightarrow> ship \<Rightarrow> error + ship" where
  "buildHardpoint G cs priorities en cl i s =
     (let sl = hardpoints s ! i;
          s1 = s\<lparr>hardpoints := (hardpoints s)[i := resetSlot 1 (hpType sl) (enabledAt en (cl + i))
                                                     (priorityAt priorities (cl + i)) sl]\<rparr>
      in case cs of
           None \<Rightarrow> Inr s1
         | Some sel \<Rightarrow>
             (case entryAt (c_hardpoints sel) i of
                None \<Rightarrow> Inr s1
              | Some x \<Rightarrow> use G (Hp i) (Some (Code x)) (cat_hardpoints G x) True s1))"

definition buildInternal :: "env \<Rightarrow> comps option \<Rightarrow> nat list option \<Rightarrow> bool list option \<Rightarrow> nat \<Rightarrow> nat \<Rightarrow> ship \<Rightarrow> error + ship" where
  "buildInternal G cs priorities en cl i s =
     (let s1 = s\<lparr>internal := (internal s)[i := resetSlot 2 SYS (enabledAt en (cl + i))
                                                 (priorityAt priorities (cl + i)) (internal s ! i)]\<rparr>
      in case cs of
           None \<Rightarrow> Inr s1
         | Some sel \<Rightarrow>
             (case entryAt (c_internal sel) i of
                None \<Rightarrow> Inr s1
              | Some x \<Rightarrow> use G (Intl i) (Some (Code x)) (cat_internal G x) True s1))"

text \<open>The statements of \<open>buildWith\<close> before its three loops.\<close>

definition buildReset :: "env \<Rightarrow> comps option \<Rightarrow> nat list option \<Rightarrow> bool list option \<Rightarrow> ship \<Rightarrow> error + ship" where
  "buildReset G cs priorities en s =
     bindE (if incCost (shipItem s) = Some True
            then (case discountedCost (shipItem s) of None \<Rightarrow> Inl NotModelled | Some d \<Rightarrow> Inr d)
            else Inr 0)
       (\<lambda>hc.
          bindE (useBulkhead G (case cs of None \<Rightarrow> 0 | Some sel \<Rightarrow> c_bulkheads sel) True
                   (s\<lparr>fuelCapacity := 0, cargoCapacity := 0, ladenMass := 0, armourAdded := 0,
                       armourMultiplier := 1, shieldMultiplier := 1, totalCost := hc,
                       unladenMass := hullMass s, totalDps := 0,
                       bulkheads := (bulkheads s)\<lparr>s_c := None\<rparr>\<rparr>))
            (\<lambda>s1.
               let ch = (cargoHatch s1)\<lparr>priority := (case priorities of None \<Rightarrow> Some 0 | Some ps \<Rightarrow> nth_opt ps 0),
                                        enabled := enabledAt en 0\<rparr>;
                   s2 = s1\<lparr>cargoHatch := ch,
                           priorityBands := map (\<lambda>b. b\<lparr>deployed := 0, retracted := 0, retOnly := 0\<rparr>)
                                                (priorityBands s1)\<rparr>
               in if enabled ch = Some True
                  then (case s_c ch of
                          None \<Rightarrow> Inl TypeError
                        | Some k \<Rightarrow> addBand (priority ch) URetracted (cpower k) s2)
                  else Inr s2))"

text \<open>\<open>standard[1].type = 'ENG'; standard[2].type = 'ENG'\<close> throws on a ship with fewer than three standard slots.\<close>

definition markEngines :: "ship \<Rightarrow> error + ship" where
  "markEngines s =
     (if 2 < length (standard s)
      then Inr (s\<lparr>standard := (standard s)[1 := (standard s ! 1)\<lparr>stype := Some ENG\<rparr>,
                                            2 := (standard s ! 2)\<lparr>stype := Some ENG\<rparr>]\<rparr>)
      else Inl TypeError)"

definition buildWith :: "env \<Rightarrow> comps option \<Rightarrow> nat list option \<Rightarrow> bool list option \<Rightarrow> ship \<Rightarrow> error + ship" where
  "buildWith G cs priorities en s =
     (let cl = length (standard s);
          nh = length (hardpoints s);
          ni = length (internal s)
      in bindE (buildReset G cs priorities en s)
           (\<lambda>s1. bindE (forEach [0..<cl] (buildStandard G cs priorities en) s1)
              (\<lambda>s2. bindE (markEngines s2)
                 (\<lambda>s3. bindE (forEach [0..<nh] (buildHardpoint G cs priorities en (cl + 1)) s3)
                    (\<lambda>s4. bindE (forEach [0..<ni] (buildInternal G cs priorities en (cl + 1 + nh)) s4)
                       (\<lambda>s5. if cs = None then Inr s5
                             else bindE (updatePower s5)
                                    (\<lambda>s6. bindE (updateJumpStats G s6)
                                       (\<lambda>s7. updateTopSpeed G (updateShieldStrength G s7)))))))))"

text \<open>
  The constructor. \<open>properties\<close> are the base properties copied onto the ship; the slot
  layout gives the maximum class of every slot. The hull entry carries a record with the
  hull cost only; \<open>eligible\<close>, \<open>costList\<close>, \<open>powerList\<close> and \<open>availCS\<close> are not kept, since
  no method modelled here reads them other than through the slots themselves.
\<close>

record properties =
  p_hullMass :: real
  p_hullCost :: real
  p_baseArmour :: real
  p_baseShieldStrength :: real
  p_speed :: real
  p_boost :: real
  p_pipSpeed :: real

record layout =
  l_standard :: "nat list"
  l_hardpoints :: "nat list"
  l_internal :: "nat list"

definition newSlot :: "nat \<Rightarrow> slot" where
  "newSlot m = \<lparr>s_id = None, s_c = None, incCost = Some True, maxClass = Some m, cat = None,
                enabled = None, priority = None, stype = None, discountedCost = None\<rparr>"

definition hullRecord :: "real \<Rightarrow> component" where
  "hullRecord x = \<lparr>grp = [], cost = x, mass = 0, cpower = 0, capacity = 0, armouradd = 0,
                   shieldmul = 0, dps = 0, cpassive = False, pGen = 0, maxfuel = 0\<rparr>"

definition newBand :: band where
  "newBand = \<lparr>deployed = 0, retracted = 0, retOnly = 0, retractedSum = None, deployedSum = None\<rparr>"

definition Ship :: "env \<Rightarrow> string \<Rightarrow> properties \<Rightarrow> layout \<Rightarrow> ship" where
  "Ship G ident p l =
     \<lparr>ship_id = ident, hullMass = p_hullMass p, hullCost = p_hullCost p, baseArmour = p_baseArmour p,
      baseShieldStrength = p_baseShieldStrength p, speed = p_speed p, boost = p_boost p,
      pipSpeed = p_pipSpeed p,
      standard = map newSlot (l_standard l), hardpoints = map newSlot (l_hardpoints l),
      internal = map newSlot (l_internal l),
      bulkheads = \<lparr>s_id = None, s_c = None, incCost = Some True, maxClass = Some 8, cat = None,
                    enabled = None, priority = None, stype = None, discountedCost = None\<rparr>,
      cargoHatch = \<lparr>s_id = None, s_c = Some (cat_cargoHatch G), incCost = None, maxClass = None,
                     cat = None, enabled = None, priority = None, stype = Some SYS,
                     discountedCost = None\<rparr>,
      shipItem = \<lparr>s_id = None, s_c = Some (hullRecord (p_hullCost p)), incCost = Some True,
                   maxClass = None, cat = None, enabled = None, priority = None, stype = Some SHIP,
                   discountedCost = Some (p_hullCost p)\<rparr>,
      shipCostMultiplier = 1, componentCostMultiplier = 1,
      priorityBands = replicate 5 newBand,
      fuelCapacity = 0, cargoCapacity = 0, ladenMass = 0, armourAdded = 0, armourMultiplier = 1,
      shieldMultiplier = 1, totalCost = 0, unladenMass = 0, totalDps = 0,
      armour = None, powerAvailable = None, powerRetracted = None, powerDeployed = None,
      topSpeed = None, topBoost = None, shieldStrength = None, unladenRange = None,
      fullTankRange = None, ladenRange = None, unladenTotalRange = None, ladenTotalRange = None,
      maxJumpCount = None\<rparr>"

subsection \<open>A small ship\<close>

text \<open>
  A catalogue, a formula library and a ship with seven standard slots, two hardpoints and
  three internal slots, on which the operations are run below.
\<close>

definition blank :: component where
  "blank = \<lparr>grp = [], cost = 0, mass = 0, cpower = 0, capacity = 0, armouradd = 0,
            shieldmul = 0, dps = 0, cpassive = False, pGen = 0, maxfuel = 0\<rparr>"

definition demoStandard :: "nat \<Rightarrow> string \<Rightarrow> component option" where
  "demoStandard i x =
     (if i = 0 \<and> x = ''2A'' then Some (blank\<lparr>grp := ''pp'', cost := 100, mass := 1, pGen := 12\<rparr>)
      else if i = 1 \<and> x = ''2A'' then Some (blank\<lparr>grp := ''t'', cost := 10, mass := 2, cpower := 2\<rparr>)
      else if i = 2 \<and> x = ''2A'' then Some (blank\<lparr>grp := ''fd'', cost := 20, mass := 2, cpower := 1, maxfuel := 1\<rparr>)
      else if i = 3 \<and> x = ''1A'' then Some (blank\<lparr>grp := ''ls'', cost := 5, mass := 1, cpower := 1\<rparr>)
      else if i = 4 \<and> x = ''1A'' then Some (blank\<lparr>grp := ''pd'', cost := 5, mass := 1, cpower := 1\<rparr>)
      else if i = 5 \<and> x = ''1A'' then Some (blank\<lparr>grp := ''s'', cost := 5, mass := 1, cpower := 1\<rparr>)
      else if i = 6 \<and> x = ''1C'' then Some (blank\<lparr>grp := ''ft'', cost := 5, capacity := 2\<rparr>)
      else None)"

definition pulseLaser :: component where
  "pulseLaser = blank\<lparr>grp := ''pl'', cost := 30, mass := 2, cpower := 6, dps := 3\<rparr>"

definition demoHardpoints :: "string \<Rightarrow> component option" where
  "demoHardpoints x =
     (if x = ''pl'' then Some pulseLaser
      else if x = ''sb'' then Some (blank\<lparr>grp := ''sb'', cost := 15, mass := 1, cpower := 1,
                                           shieldmul := 1 / 5, cpassive := True\<rparr>)
      else None)"

definition shieldGen :: component where
  "shieldGen = blank\<lparr>grp := ''sg'', cost := 50, mass := 1, cpower := 1\<rparr>"

definition shieldGen2 :: component where
  "shieldGen2 = blank\<lparr>grp := ''sg'', cost := 80, mass := 2, cpower := 2\<rparr>"

definition cargoRack :: component where
  "cargoRack = blank\<lparr>grp := ''cr'', cost := 10, capacity := 2\<rparr>"

definition cargoRack4 :: component where
  "cargoRack4 = blank\<lparr>grp := ''cr'', cost := 30, capacity := 4\<rparr>"

definition demoInternal :: "string \<Rightarrow> component option" where
  "demoInternal x =
     (if x = ''sg'' then Some shieldGen
      else if x = ''sg2'' then Some shieldGen2
      else if x = ''cr'' then Some cargoRack
      else if x = ''cr4'' then Some cargoRack4
      else None)"

definition demoEnv :: env where
  "demoEnv = \<lparr>cat_standard = demoStandard, cat_hardpoints = demoHardpoints,
              cat_internal = demoInternal,
              cat_bulkheads = (\<lambda>sid i. blank\<lparr>grp := ''bh'', cost := 40 * real i, mass := real i\<rparr>),
              cat_cargoHatch = blank\<lparr>grp := ''ch'', cpower := 1\<rparr>,
              ArmourMultiplier = (\<lambda>i. 1 + real i / 2),
              calcShieldStrength = (\<lambda>hm bs k m. bs * m),
              calcJumpRange = (\<lambda>m k f. m + f),
              calcTotalRange = (\<lambda>m k f. m + 2 * f),
              calcSpeed = (\<lambda>m sp bo th pip. (sp, bo))\<rparr>"

definition demoProps :: properties where
  "demoProps = \<lparr>p_hullMass = 25, p_hullCost = 4000, p_baseArmour = 108, p_baseShieldStrength = 40,
                p_speed = 220, p_boost = 320, p_pipSpeed = 1\<rparr>"

definition demoLayout :: layout where
  "demoLayout = \<lparr>l_standard = [2, 2, 2, 1, 1, 1, 1], l_hardpoints = [1, 1], l_internal = [2, 2, 1]\<rparr>"

definition demoComps :: comps where
  "demoComps = \<lparr>c_bulkheads = 0,
                c_standard = [Some ''2A'', Some ''2A'', Some ''2A'', Some ''1A'', Some ''1A'',
                              Some ''1A'', Some ''1C''],
                c_hardpoints = [Some ''pl'', None],
                c_internal = [Some ''sg'', Some ''cr'', None]\<rparr>"

definition demoNew :: ship where
  "demoNew = Ship demoEnv ''demo'' demoProps demoLayout"

text \<open>The ship that \<open>buildWith\<close> produces from \<open>demoComps\<close>, written out.\<close>

definition fitted :: "nat \<Rightarrow> slot_type \<Rightarrow> nat \<Rightarrow> string \<Rightarrow> component \<Rightarrow> slot" where
  "fitted ct ty m x k =
     \<lparr>s_id = Some (Code x), s_c = Some k, incCost = Some True, maxClass = Some m, cat = Some ct,
      enabled = Some True, priority = Some 0, stype = Some ty, discountedCost = Some (cost k)\<rparr>"

definition vacant :: "nat \<Rightarrow> slot_type \<Rightarrow> nat \<Rightarrow> slot" where
  "vacant ct ty m =
     \<lparr>s_id = None, s_c = None, incCost = Some True, maxClass = Some m, cat = Some ct,
      enabled = Some True, priority = Some 0, stype = Some ty, discountedCost = Some 0\<rparr>"

definition summed :: "real \<Rightarrow> real \<Rightarrow> real \<Rightarrow> real \<Rightarrow> band" where
  "summed d r rs ds = \<lparr>deployed = d, retracted = r, retOnly = 0, retractedSum = Some rs,
                       deployedSum = Some ds\<rparr>"

definition demoBuilt :: ship where
  "demoBuilt =
     demoNew\<lparr>
       standard := [fitted 0 SYS 2 ''2A'' (the (demoStandard 0 ''2A'')),
                    fitted 0 ENG 2 ''2A'' (the (demoStandard 1 ''2A'')),
                    fitted 0 ENG 2 ''2A'' (the (demoStandard 2 ''2A'')),
                    fitted 0 SYS 1 ''1A'' (the (demoStandard 3 ''1A'')),
                    fitted 0 SYS 1 ''1A'' (the (demoStandard 4 ''1A'')),
                    fitted 0 SYS 1 ''1A'' (the (demoStandard 5 ''1A'')),
                    fitted 0 SYS 1 ''1C'' (the (demoStandard 6 ''1C''))],
       hardpoints := [fitted 1 WEP 1 ''pl'' pulseLaser, vacant 1 WEP 1],
       internal := [fitted 2 SYS 2 ''sg'' shieldGen, fitted 2 SYS 2 ''cr'' cargoRack, vacant 2 SYS 1],
       bulkheads := (bulkheads demoNew)\<lparr>s_id := Some (Index 0), s_c := Some (blank\<lparr>grp := ''bh''\<rparr>),
                                         discountedCost := Some 0\<rparr>,
       cargoHatch := (cargoHatch demoNew)\<lparr>enabled := Some True, priority := Some 0\<rparr>,
       priorityBands := [summed 6 8 8 14, summed 0 0 8 14, summed 0 0 8 14, summed 0 0 8 14,
                         summed 0 0 8 14],
       fuelCapacity := 2, cargoCapacity := 2, ladenMass := 40, totalCost := 4240,
       unladenMass := 36, totalDps := 3, armour := Some 108, powerAvailable := Some 12,
       powerRetracted := Some 8, powerDeployed := Some 14, topSpeed := Some 220,
       topBoost := Some 320, shieldStrength := Some 40, unladenRange := Some 39,
       fullTankRange := Some 40, ladenRange := Some 42, unladenTotalRange := Some 40,
       ladenTotalRange := Some 42, maxJumpCount := Some 2\<rparr>"

subsection \<open>Auxiliary notions for the properties\<close>

text \<open>What one band adds to the cumulative retracted and deployed sums.\<close>

definition retDraw :: "band \<Rightarrow> real" where
  "retDraw b = retracted b + retOnly b"

definition depDraw :: "band \<Rightarrow> real" where
  "depDraw b = deployed b + retracted b"

text \<open>The cumulative sum of the tier before tier \<open>i\<close>; zero before tier 0.\<close>

definition sumBefore :: "(band \<Rightarrow> real option) \<Rightarrow> band list \<Rightarrow> nat \<Rightarrow> real option" where
  "sumBefore f bs i = (if i = 0 then Some 0 else f (bs ! (i - 1)))"

text \<open>
  The source's \<open>costList\<close>: the hull entry, then the internal, standard and hardpoint
  slots, then the bulkheads. \<open>catalogCost\<close> is the cost of the record an item holds.
\<close>

definition costList :: "ship \<Rightarrow> slot list" where
  "costList s = shipItem s # internal s @ standard s @ hardpoints s @ [bulkheads s]"

definition catalogCost :: "slot \<Rightarrow> real" where
  "catalogCost item = (case s_c item of None \<Rightarrow> 0 | Some k \<Rightarrow> cost k)"

text \<open>
  The shape of the cost list that the constructor and \<open>buildWith\<close> set up and every
  operation keeps: only the hull entry has type \<open>SHIP\<close>, and an item that holds no
  record, or one that costs nothing, has a discounted cost of 0.
\<close>

definition costListShaped :: "ship \<Rightarrow> bool" where
  "costListShaped s =
     (stype (shipItem s) = Some SHIP \<and>
      list_all (\<lambda>x. stype x \<noteq> Some SHIP) (internal s @ standard s @ hardpoints s @ [bulkheads s]) \<and>
      list_all (\<lambda>x. hasCost x \<or> discountedCost x = Some 0) (costList s))"

definition includedCost :: "slot \<Rightarrow> real" where
  "includedCost item =
     (if incCost item = Some True then (case discountedCost item of None \<Rightarrow> 0 | Some d \<Rightarrow> d) else 0)"

text \<open>
  What a component \<open>ko\<close> (or none) in a slot \<open>x\<close> adds to each accumulated statistic,
  read off the two halves of \<open>updateStats\<close>: \<open>draws\<close> is the test
  \<open>n.power && slot.enabled\<close>.
\<close>

definition fuelC :: "component option \<Rightarrow> real" where
  "fuelC ko = (case ko of None \<Rightarrow> 0 | Some k \<Rightarrow> if grp k = ''ft'' then capacity k else 0)"

definition cargoC :: "component option \<Rightarrow> real" where
  "cargoC ko = (case ko of None \<Rightarrow> 0 | Some k \<Rightarrow> if grp k = ''cr'' then capacity k else 0)"

definition armourC :: "component option \<Rightarrow> real" where
  "armourC ko = (case ko of None \<Rightarrow> 0 | Some k \<Rightarrow> if grp k = ''hr'' then armouradd k else 0)"

definition boostC :: "slot \<Rightarrow> component option \<Rightarrow> real" where
  "boostC x ko = (case ko of None \<Rightarrow> 0 | Some k \<Rightarrow> if grp k = ''sb'' \<and> enabled x = Some True then shieldmul k else 0)"

definition costC :: "slot \<Rightarrow> real \<Rightarrow> component option \<Rightarrow> real" where
  "costC x m ko = (case ko of None \<Rightarrow> 0 | Some k \<Rightarrow> if incCost x = Some True then cost k * m else 0)"

definition massC :: "component option \<Rightarrow> real" where
  "massC ko = (case ko of None \<Rightarrow> 0 | Some k \<Rightarrow> mass k)"

definition draws :: "slot \<Rightarrow> component option \<Rightarrow> bool" where
  "draws x ko = (case ko of None \<Rightarrow> False | Some k \<Rightarrow> cpower k \<noteq> 0 \<and> enabled x = Some True)"

definition dpsC :: "slot \<Rightarrow> component option \<Rightarrow> real" where
  "dpsC x ko = (case ko of None \<Rightarrow> 0 | Some k \<Rightarrow> if draws x ko then dps k else 0)"

definition drawC :: "slot \<Rightarrow> component option \<Rightarrow> nat \<Rightarrow> usage \<Rightarrow> real" where
  "drawC x ko t u = (case ko of None \<Rightarrow> 0
     | Some k \<Rightarrow> if enabled x = Some True \<and> priority x = Some t \<and> powerUsageType x ko = u then cpower k else 0)"

text \<open>
  The change of the bands when the component arrives (\<open>sg = 1\<close>) or leaves (\<open>sg = -1\<close>),
  and the condition under which the band it names exists.
\<close>

definition bandPut :: "slot \<Rightarrow> component option \<Rightarrow> real \<Rightarrow> band list \<Rightarrow> band list" where
  "bandPut x ko sg bs =
     (case ko of None \<Rightarrow> bs
      | Some k \<Rightarrow> if draws x ko
                  then (case priority x of None \<Rightarrow> bs
                        | Some t \<Rightarrow> bs[t := bump (powerUsageType x ko) (sg * cpower k) (bs ! t)])
                  else bs)"

definition bandOK :: "slot \<Rightarrow> component option \<Rightarrow> nat \<Rightarrow> bool" where
  "bandOK x ko n = (draws x ko \<longrightarrow> (case priority x of None \<Rightarrow> False | Some t \<Rightarrow> t < n))"

text \<open>\<open>updateStats\<close> up to the recomputations: the old component leaves, the new one arrives.\<close>

definition statsCore :: "slot \<Rightarrow> component option \<Rightarrow> component option \<Rightarrow> ship \<Rightarrow> ship" where
  "statsCore x n old s =
     s\<lparr>fuelCapacity := fuelCapacity s - fuelC old + fuelC n,
       cargoCapacity := cargoCapacity s - cargoC old + cargoC n,
       armourAdded := armourAdded s - armourC old + armourC n,
       shieldMultiplier := shieldMultiplier s - boostC x old + boostC x n,
       totalCost := totalCost s - costC x (componentCostMultiplier s) old + costC x (componentCostMultiplier s) n,
       priorityBands := bandPut x n 1 (bandPut x old (- 1) (priorityBands s)),
       totalDps := totalDps s - dpsC x old + dpsC x n,
       unladenMass := unladenMass s - massC old + massC n,
       ladenMass := (unladenMass s - massC old + massC n) + (cargoCapacity s - cargoC old + cargoC n)
                    + (fuelCapacity s - fuelC old + fuelC n),
       armour := Some (armourAdded s - armourC old + armourC n + js_round (baseArmour s * armourMultiplier s))\<rparr>"


text \<open>
  The raw sums of the bands, and the part of a ship that the recomputations leave alone:
  slots, multipliers, raw band sums, accumulated statistics and base properties.
\<close>

definition rawBands :: "band list \<Rightarrow> (real \<times> real \<times> real) list" where
  "rawBands bs = map (\<lambda>b. (deployed b, retracted b, retOnly b)) bs"


text \<open>The slot after \<open>use\<close> has written id, record and discounted cost.\<close>

definition fit :: "slot \<Rightarrow> ident option \<Rightarrow> component option \<Rightarrow> real \<Rightarrow> slot" where
  "fit x ident ko m = x\<lparr>s_id := ident, s_c := ko, discountedCost := Some (newCost ko m)\<rparr>"

definition rawPut :: "slot \<Rightarrow> component option \<Rightarrow> real \<Rightarrow> (real \<times> real \<times> real) list \<Rightarrow> (real \<times> real \<times> real) list" where
  "rawPut x ko sg rs =
     (case ko of None \<Rightarrow> rs
      | Some k \<Rightarrow> if draws x ko
                  then (case priority x of None \<Rightarrow> rs
                        | Some t \<Rightarrow> if t < length rs then
                            rs[t := (case rs ! t of (d, r, ro) \<Rightarrow>
                                      (case powerUsageType x ko of
                                         UDeployed \<Rightarrow> (d + sg * cpower k, r, ro)
                                       | URetracted \<Rightarrow> (d, r + sg * cpower k, ro)))] else rs)
                  else rs)"











text \<open>The small ship before its cumulative sums have been computed.\<close>

definition demoUnsummed :: ship where
  "demoUnsummed = demoBuilt\<lparr>priorityBands := map (\<lambda>b. b\<lparr>retractedSum := None, deployedSum := None\<rparr>)
                                               (priorityBands demoBuilt)\<rparr>"

section \<open>Properties\<close>

subsection \<open>Running the small ship\<close>

lemmas demo_defs = blank_def demoStandard_def demoHardpoints_def demoInternal_def demoEnv_def
  demoProps_def demoLayout_def demoComps_def demoNew_def pulseLaser_def shieldGen_def
  shieldGen2_def cargoRack_def cargoRack4_def fitted_def vacant_def summed_def

lemmas op_defs = buildWith_def buildReset_def buildStandard_def buildHardpoint_def buildInternal_def
  markEngines_def useBulkhead_def use_def vacateSimilar_def updateStats_def statsAdd_def statsRemove_def
  updatePower_def updateJumpStats_def updateTopSpeed_def updateShieldStrength_def findInternalByGroup_def
  matchesGroup_def addBand_def bump_def powerUsageType_def bindE_def Ship_def newSlot_def newBand_def
  hullRecord_def resetSlot_def enabledAt_def priorityAt_def entryAt_def newCost_def uniqueGroup_def
  js_round_def emptied_def hpType_def

lemma buildWith_demo: "buildWith demoEnv (Some demoComps) None None demoNew = Inr demoBuilt"
  by (simp add: demoBuilt_def demo_defs op_defs Let_def upt_conv_Cons eval_nat_numeral)

subsection \<open>The cumulative sums of updatePower\<close>

lemma sumBands_length: "length (fst (sumBands pr pd bs)) = length bs"
  by (induction bs arbitrary: pr pd) (simp_all add: Let_def)

lemma sumBands_nth:
  "i < length bs \<Longrightarrow>
   fst (sumBands pr pd bs) ! i =
     (bs ! i)\<lparr>retractedSum := Some (pr + sum_list (map retDraw (take (Suc i) bs))),
              deployedSum := Some (pd + sum_list (map depDraw (take (Suc i) bs)))\<rparr>"
proof (induction bs arbitrary: pr pd i)
  case Nil
  then show ?case by simp
next
  case (Cons b bs)
  show ?case
  proof (cases i)
    case 0
    then show ?thesis by (simp add: Let_def retDraw_def depDraw_def)
  next
    case (Suc j)
    with Cons.prems have "j < length bs" by simp
    from Cons.IH[OF this] Suc show ?thesis
      by (simp add: Let_def retDraw_def depDraw_def add.assoc)
  qed
qed

lemma sumBands_snd:
  "snd (sumBands pr pd bs) = (pr + sum_list (map retDraw bs), pd + sum_list (map depDraw bs))"
  by (induction bs arbitrary: pr pd) (simp_all add: Let_def retDraw_def depDraw_def add.assoc)

lemma updatePower_bands:
  "updatePower s = Inr s' \<Longrightarrow> priorityBands s' = fst (sumBands 0 0 (priorityBands s))"
  by (auto simp: updatePower_def Let_def split: option.splits if_splits)

lemma take_Suc_sum:
  "i < length bs \<Longrightarrow> sum_list (map f (take (Suc i) bs)) = sum_list (map f (take i bs)) + f (bs ! i)"
  by (simp add: take_Suc_conv_app_nth)

lemma updatePower_returns:
  assumes "nth_opt (standard s) 0 = Some pp" and "s_c pp = Some k"
  shows "updatePower s =
         Inr (s\<lparr>priorityBands := fst (sumBands 0 0 (priorityBands s)),
                powerAvailable := Some (pGen k),
                powerRetracted := Some (fst (snd (sumBands 0 0 (priorityBands s)))),
                powerDeployed := Some (snd (snd (sumBands 0 0 (priorityBands s))))\<rparr>)"
  using assms by (simp add: updatePower_def Let_def split: if_splits)

lemma sumBands_tier:
  assumes "i < length bs"
  shows "\<exists>pr pd.
           sumBefore retractedSum (fst (sumBands 0 0 bs)) i = Some pr \<and>
           sumBefore deployedSum (fst (sumBands 0 0 bs)) i = Some pd \<and>
           retractedSum (fst (sumBands 0 0 bs) ! i)
             = Some (pr + retracted (fst (sumBands 0 0 bs) ! i) + retOnly (fst (sumBands 0 0 bs) ! i)) \<and>
           deployedSum (fst (sumBands 0 0 bs) ! i)
             = Some (pd + deployed (fst (sumBands 0 0 bs) ! i) + retracted (fst (sumBands 0 0 bs) ! i)) \<and>
           retracted (fst (sumBands 0 0 bs) ! i) = retracted (bs ! i) \<and>
           retOnly (fst (sumBands 0 0 bs) ! i) = retOnly (bs ! i) \<and>
           deployed (fst (sumBands 0 0 bs) ! i) = deployed (bs ! i)"
proof (cases i)
  case 0
  with assms show ?thesis
    by (simp add: sumBands_nth sumBefore_def take_Suc_sum[of 0] retDraw_def depDraw_def)
next
  case (Suc j)
  with assms have j: "j < length bs" by simp
  from assms j Suc show ?thesis
    by (simp add: sumBands_nth sumBefore_def take_Suc_sum[of "Suc j"] retDraw_def depDraw_def)
qed

text \<open>
  C4. On every ship whose first standard slot holds a power plant, \<open>updatePower\<close>
  returns, keeps the tiers and their raw sums, sets the available power to the generator
  output, and leaves every tier \<open>i\<close> with
  \<open>retractedSum[i] = retractedSum[i-1] + retracted[i] + retOnly[i]\<close> and
  \<open>deployedSum[i] = deployedSum[i-1] + deployed[i] + retracted[i]\<close>, where the sums before
  tier 0 are zero, so that tier 0 carries its own raw sums; the retracted and deployed
  totals of the ship are the sums of the last tier.
\<close>

theorem updatePower_recurrence:
  assumes "nth_opt (standard s) 0 = Some pp" and "s_c pp = Some k"
  shows "\<exists>s'. updatePower s = Inr s' \<and>
           length (priorityBands s') = length (priorityBands s) \<and>
           powerAvailable s' = Some (pGen k) \<and>
           powerRetracted s' = sumBefore retractedSum (priorityBands s') (length (priorityBands s)) \<and>
           powerDeployed s' = sumBefore deployedSum (priorityBands s') (length (priorityBands s)) \<and>
           (\<forall>i < length (priorityBands s).
              \<exists>pr pd.
                sumBefore retractedSum (priorityBands s') i = Some pr \<and>
                sumBefore deployedSum (priorityBands s') i = Some pd \<and>
                retractedSum (priorityBands s' ! i)
                  = Some (pr + retracted (priorityBands s' ! i) + retOnly (priorityBands s' ! i)) \<and>
                deployedSum (priorityBands s' ! i)
                  = Some (pd + deployed (priorityBands s' ! i) + retracted (priorityBands s' ! i)) \<and>
                retracted (priorityBands s' ! i) = retracted (priorityBands s ! i) \<and>
                retOnly (priorityBands s' ! i) = retOnly (priorityBands s ! i) \<and>
                deployed (priorityBands s' ! i) = deployed (priorityBands s ! i))"
proof -
  let ?bs = "priorityBands s"
  let ?s' = "s\<lparr>priorityBands := fst (sumBands 0 0 ?bs),
                powerAvailable := Some (pGen k),
                powerRetracted := Some (fst (snd (sumBands 0 0 ?bs))),
                powerDeployed := Some (snd (snd (sumBands 0 0 ?bs)))\<rparr>"
  have r: "updatePower s = Inr ?s'" using assms by (rule updatePower_returns)
  have tot: "Some (fst (snd (sumBands 0 0 ?bs))) = sumBefore retractedSum (fst (sumBands 0 0 ?bs)) (length ?bs)"
            "Some (snd (snd (sumBands 0 0 ?bs))) = sumBefore deployedSum (fst (sumBands 0 0 ?bs)) (length ?bs)"
    by (cases "length ?bs"; simp add: sumBefore_def sumBands_nth sumBands_snd)+
  have tiers: "\<forall>i < length ?bs. \<exists>pr pd.
           sumBefore retractedSum (fst (sumBands 0 0 ?bs)) i = Some pr \<and>
           sumBefore deployedSum (fst (sumBands 0 0 ?bs)) i = Some pd \<and>
           retractedSum (fst (sumBands 0 0 ?bs) ! i)
             = Some (pr + retracted (fst (sumBands 0 0 ?bs) ! i) + retOnly (fst (sumBands 0 0 ?bs) ! i)) \<and>
           deployedSum (fst (sumBands 0 0 ?bs) ! i)
             = Some (pd + deployed (fst (sumBands 0 0 ?bs) ! i) + retracted (fst (sumBands 0 0 ?bs) ! i)) \<and>
           retracted (fst (sumBands 0 0 ?bs) ! i) = retracted (?bs ! i) \<and>
           retOnly (fst (sumBands 0 0 ?bs) ! i) = retOnly (?bs ! i) \<and>
           deployed (fst (sumBands 0 0 ?bs) ! i) = deployed (?bs ! i)"
    using sumBands_tier by blast
  show ?thesis
    apply (rule exI[of _ ?s'])
    using r tot tiers by (simp add: sumBands_length)
qed

lemma demo_updatePower: "updatePower demoUnsummed = Inr demoBuilt"
  by (simp add: demoUnsummed_def demoBuilt_def demo_defs op_defs Let_def)

theorem updatePower_recurrence_witness:
  "updatePower demoUnsummed = Inr demoBuilt \<and>
   length (priorityBands demoBuilt) = 5 \<and> powerAvailable demoBuilt = Some 12 \<and>
   retractedSum (priorityBands demoBuilt ! 0) = Some (0 + 8 + 0) \<and>
   deployedSum (priorityBands demoBuilt ! 0) = Some (0 + 6 + 8) \<and>
   retractedSum (priorityBands demoBuilt ! 1) = Some (8 + 0 + 0) \<and>
   deployedSum (priorityBands demoBuilt ! 1) = Some (14 + 0 + 0)"
proof -
  let ?k = "blank\<lparr>grp := ''pp'', cost := 100, mass := 1, pGen := 12\<rparr>"
  have h1: "nth_opt (standard demoUnsummed) 0 = Some (fitted 0 SYS 2 ''2A'' ?k)"
    by (simp add: demoUnsummed_def demoBuilt_def demo_defs)
  have h2: "s_c (fitted 0 SYS 2 ''2A'' ?k) = Some ?k" by (simp add: fitted_def)
  from updatePower_recurrence[OF h1 h2] obtain s' where
    r: "updatePower demoUnsummed = Inr s'" and
    l: "length (priorityBands s') = length (priorityBands demoUnsummed)" and
    a: "powerAvailable s' = Some (pGen ?k)" and
    t: "\<forall>i < length (priorityBands demoUnsummed).
              \<exists>pr pd.
                sumBefore retractedSum (priorityBands s') i = Some pr \<and>
                sumBefore deployedSum (priorityBands s') i = Some pd \<and>
                retractedSum (priorityBands s' ! i)
                  = Some (pr + retracted (priorityBands s' ! i) + retOnly (priorityBands s' ! i)) \<and>
                deployedSum (priorityBands s' ! i)
                  = Some (pd + deployed (priorityBands s' ! i) + retracted (priorityBands s' ! i)) \<and>
                retracted (priorityBands s' ! i) = retracted (priorityBands demoUnsummed ! i) \<and>
                retOnly (priorityBands s' ! i) = retOnly (priorityBands demoUnsummed ! i) \<and>
                deployed (priorityBands s' ! i) = deployed (priorityBands demoUnsummed ! i)"
    by blast
  from r demo_updatePower have e: "s' = demoBuilt" by simp
  have n: "length (priorityBands demoUnsummed) = 5" by (simp add: demoUnsummed_def demoBuilt_def)
  have raw0: "retracted (priorityBands demoUnsummed ! 0) = 8" "retOnly (priorityBands demoUnsummed ! 0) = 0"
    "deployed (priorityBands demoUnsummed ! 0) = 6"
    by (simp_all add: demoUnsummed_def demoBuilt_def summed_def)
  have raw1: "retracted (priorityBands demoUnsummed ! 1) = 0" "retOnly (priorityBands demoUnsummed ! 1) = 0"
    "deployed (priorityBands demoUnsummed ! 1) = 0"
    by (simp_all add: demoUnsummed_def demoBuilt_def summed_def)
  from t n have t0: "\<exists>pr pd.
                sumBefore retractedSum (priorityBands s') 0 = Some pr \<and>
                sumBefore deployedSum (priorityBands s') 0 = Some pd \<and>
                retractedSum (priorityBands s' ! 0)
                  = Some (pr + retracted (priorityBands s' ! 0) + retOnly (priorityBands s' ! 0)) \<and>
                deployedSum (priorityBands s' ! 0)
                  = Some (pd + deployed (priorityBands s' ! 0) + retracted (priorityBands s' ! 0)) \<and>
                retracted (priorityBands s' ! 0) = retracted (priorityBands demoUnsummed ! 0) \<and>
                retOnly (priorityBands s' ! 0) = retOnly (priorityBands demoUnsummed ! 0) \<and>
                deployed (priorityBands s' ! 0) = deployed (priorityBands demoUnsummed ! 0)"
    by simp
  then have s0: "retractedSum (priorityBands demoBuilt ! 0) = Some (0 + 8 + 0)"
    "deployedSum (priorityBands demoBuilt ! 0) = Some (0 + 6 + 8)"
    unfolding e using raw0 by (auto simp: sumBefore_def)
  from t n have t1: "\<exists>pr pd.
                sumBefore retractedSum (priorityBands s') 1 = Some pr \<and>
                sumBefore deployedSum (priorityBands s') 1 = Some pd \<and>
                retractedSum (priorityBands s' ! 1)
                  = Some (pr + retracted (priorityBands s' ! 1) + retOnly (priorityBands s' ! 1)) \<and>
                deployedSum (priorityBands s' ! 1)
                  = Some (pd + deployed (priorityBands s' ! 1) + retracted (priorityBands s' ! 1)) \<and>
                retracted (priorityBands s' ! 1) = retracted (priorityBands demoUnsummed ! 1) \<and>
                retOnly (priorityBands s' ! 1) = retOnly (priorityBands demoUnsummed ! 1) \<and>
                deployed (priorityBands s' ! 1) = deployed (priorityBands demoUnsummed ! 1)"
    by simp
  then have s1: "retractedSum (priorityBands demoBuilt ! 1) = Some (8 + 0 + 0)"
    "deployedSum (priorityBands demoBuilt ! 1) = Some (14 + 0 + 0)"
    unfolding e using raw1 s0 by (auto simp: sumBefore_def)
  from r l a e n s0 s1 show ?thesis by (simp add: blank_def)
qed

subsection \<open>Slot status\<close>

text \<open>
  C10. A hardpoint slot (category 1) that holds an enabled component which is not passive
  has no status while the hardpoints are retracted: \<open>getSlotStatus\<close> returns 0, neither
  online nor offline.
\<close>

theorem active_hardpoint_no_retracted_status:
  assumes "get_slot s r = Some slot" and "cat slot = Some 1" and "s_c slot = Some k"
    and "\<not> cpassive k" and "enabled slot = Some True"
  shows "getSlotStatus s r False = Inr 0"
  using assms by (simp add: getSlotStatus_def)

theorem active_hardpoint_no_retracted_status_witness:
  "get_slot demoBuilt (Hp 0) = Some (fitted 1 WEP 1 ''pl'' pulseLaser) \<and>
   cat (fitted 1 WEP 1 ''pl'' pulseLaser) = Some 1 \<and>
   s_c (fitted 1 WEP 1 ''pl'' pulseLaser) = Some pulseLaser \<and> \<not> cpassive pulseLaser \<and>
   enabled (fitted 1 WEP 1 ''pl'' pulseLaser) = Some True \<and>
   getSlotStatus demoBuilt (Hp 0) False = Inr 0"
proof -
  have h1: "get_slot demoBuilt (Hp 0) = Some (fitted 1 WEP 1 ''pl'' pulseLaser)"
    by (simp add: demoBuilt_def)
  have h2: "cat (fitted 1 WEP 1 ''pl'' pulseLaser) = Some 1" by (simp add: fitted_def)
  have h3: "s_c (fitted 1 WEP 1 ''pl'' pulseLaser) = Some pulseLaser" by (simp add: fitted_def)
  have h4: "\<not> cpassive pulseLaser" by (simp add: pulseLaser_def blank_def)
  have h5: "enabled (fitted 1 WEP 1 ''pl'' pulseLaser) = Some True" by (simp add: fitted_def)
  from active_hardpoint_no_retracted_status[OF h1 h2 h3 h4 h5] h1 h2 h3 h4 h5
  show ?thesis by simp
qed

text \<open>
  C2, as the source has it. For an installed, enabled slot whose priority names a band,
  with the band's cumulative sum and the available power computed, \<open>getSlotStatus\<close>
  answers offline (2) exactly when the cumulative sum of the tier (the deployed sum when
  asked for the deployed state, the retracted sum otherwise) is at least the available
  power, and online (3) exactly when it is strictly less. An active hardpoint asked for
  its retracted state is excepted: it has no status.
\<close>

theorem getSlotStatus_power:
  assumes "get_slot s r = Some slot" and "s_c slot = Some k" and "enabled slot = Some True"
    and "dep \<or> cat slot \<noteq> Some 1 \<or> cpassive k"
    and "priority slot = Some p" and "p < length (priorityBands s)"
    and "(if dep then deployedSum (priorityBands s ! p) else retractedSum (priorityBands s ! p)) = Some x"
    and "powerAvailable s = Some a"
  shows "(getSlotStatus s r dep = Inr 2 \<longleftrightarrow> x \<ge> a) \<and> (getSlotStatus s r dep = Inr 3 \<longleftrightarrow> x < a)"
  using assms by (auto simp: getSlotStatus_def bandOf_def bindE_def js_ge_def split: if_splits)

theorem getSlotStatus_power_witness:
  "get_slot demoBuilt (Hp 0) = Some (fitted 1 WEP 1 ''pl'' pulseLaser) \<and>
   deployedSum (priorityBands demoBuilt ! 0) = Some 14 \<and> powerAvailable demoBuilt = Some 12 \<and>
   getSlotStatus demoBuilt (Hp 0) True = Inr 2"
proof -
  have h1: "get_slot demoBuilt (Hp 0) = Some (fitted 1 WEP 1 ''pl'' pulseLaser)"
    by (simp add: demoBuilt_def)
  have h2: "s_c (fitted 1 WEP 1 ''pl'' pulseLaser) = Some pulseLaser" by (simp add: fitted_def)
  have h3: "enabled (fitted 1 WEP 1 ''pl'' pulseLaser) = Some True" by (simp add: fitted_def)
  have h4: "True \<or> cat (fitted 1 WEP 1 ''pl'' pulseLaser) \<noteq> Some 1 \<or> cpassive pulseLaser" by simp
  have h5: "priority (fitted 1 WEP 1 ''pl'' pulseLaser) = Some 0" by (simp add: fitted_def)
  have h6: "0 < length (priorityBands demoBuilt)" by (simp add: demoBuilt_def)
  have h7: "(if True then deployedSum (priorityBands demoBuilt ! 0)
             else retractedSum (priorityBands demoBuilt ! 0)) = Some 14"
    by (simp add: demoBuilt_def summed_def)
  have h8: "powerAvailable demoBuilt = Some 12" by (simp add: demoBuilt_def)
  from getSlotStatus_power[OF h1 h2 h3 h4 h5 h6 h7 h8] h1 h7 h8 show ?thesis by simp
qed

text \<open>
  The exception is needed: the pulse laser of the small ship is installed and enabled and
  its tier draws 8 of 12 when retracted, yet its retracted status is neither online nor
  offline.
\<close>

theorem getSlotStatus_retracted_weapon:
  "get_slot demoBuilt (Hp 0) = Some (fitted 1 WEP 1 ''pl'' pulseLaser) \<and>
   retractedSum (priorityBands demoBuilt ! 0) = Some 8 \<and> powerAvailable demoBuilt = Some 12 \<and>
   getSlotStatus demoBuilt (Hp 0) False \<noteq> Inr 3 \<and> getSlotStatus demoBuilt (Hp 0) False \<noteq> Inr 2"
  by (simp add: demoBuilt_def getSlotStatus_def fitted_def pulseLaser_def blank_def summed_def)

subsection \<open>changePriority\<close>

text \<open>A priority outside the bands is refused, and the ship is returned as it was.\<close>

lemma changePriority_out_of_range:
  "newPriority < 0 \<or> newPriority \<ge> int (length (priorityBands s)) \<Longrightarrow>
   changePriority r newPriority s = Inr (False, s)"
  by (auto simp: changePriority_def)

text \<open>
  C5. For a priority within range \<open>changePriority\<close> is meant to return true. On an
  enabled slot that holds no component it reads \<open>slot.c.power\<close> from \<open>null\<close> and throws
  instead: the third internal slot of the small ship is empty and enabled, as
  \<open>buildWith\<close> leaves every empty slot.
\<close>

theorem changePriority_empty_enabled_slot:
  "get_slot demoBuilt (Intl 2) = Some (vacant 2 SYS 1) \<and>
   changePriority (Intl 2) 1 demoBuilt = Inl TypeError"
  by (simp add: demoBuilt_def changePriority_def vacant_def Let_def)

subsection \<open>applyDiscounts\<close>

lemma discountLoop_fst: "fst (discountLoop sm cm t xs) = map (discountItem sm cm) xs"
  by (induction xs arbitrary: t) (simp_all add: Let_def)

lemma discountLoop_snd:
  "snd (discountLoop sm cm t xs) = t + sum_list (map (\<lambda>x. itemTotal (discountItem sm cm x)) xs)"
  by (induction xs arbitrary: t) (simp_all add: Let_def add.assoc)

lemma applyDiscounts_costList:
  "costList (applyDiscounts sm cm s) = map (discountItem sm cm) (costList s)"
  by (simp add: applyDiscounts_def costList_def Let_def discountLoop_fst)

lemma applyDiscounts_total:
  "totalCost (applyDiscounts sm cm s) = sum_list (map (\<lambda>x. itemTotal (discountItem sm cm x)) (costList s))"
  by (simp add: applyDiscounts_def costList_def Let_def discountLoop_snd add.assoc)

lemma discountItem_fields:
  "s_c (discountItem sm cm x) = s_c x" "incCost (discountItem sm cm x) = incCost x"
  "stype (discountItem sm cm x) = stype x" "hasCost (discountItem sm cm x) = hasCost x"
  by (simp_all add: discountItem_def hasCost_def split: option.splits)

lemma discountItem_cost:
  "hasCost x \<or> discountedCost x = Some 0 \<Longrightarrow>
   discountedCost (discountItem sm cm x) = Some (catalogCost x * (if stype x = Some SHIP then sm else cm))"
  by (auto simp: discountItem_def hasCost_def catalogCost_def split: option.splits)

lemma itemTotal_discountItem:
  "hasCost x \<or> discountedCost x = Some 0 \<Longrightarrow>
   itemTotal (discountItem sm cm x) = includedCost (discountItem sm cm x)"
  by (auto simp: itemTotal_def includedCost_def discountItem_fields discountItem_def hasCost_def split: option.splits)

lemma includedCost_discountItem:
  "hasCost x \<or> discountedCost x = Some 0 \<Longrightarrow>
   includedCost (discountItem sm cm x) =
     (if incCost x = Some True then catalogCost x * (if stype x = Some SHIP then sm else cm) else 0)"
  by (simp add: includedCost_def discountItem_fields discountItem_cost)

text \<open>
  C7. On a ship whose cost list has the shape that the constructor and \<open>buildWith\<close> give
  it, \<open>applyDiscounts sm cm\<close> keeps every item's record and inclusion flag, sets the
  discounted cost of the hull entry (the first item) to its cost times \<open>sm\<close> and of every
  other item to the cost of its record times \<open>cm\<close> (0 for an item without a record),
  stores the two multipliers, and sets the total to the sum of the discounted costs of
  the cost-included items, which is the hull cost times \<open>sm\<close> (when the hull is included)
  plus the sum of cost times \<open>cm\<close> over the other included items.
\<close>

theorem applyDiscounts_costs:
  assumes "costListShaped s"
  shows "length (costList (applyDiscounts sm cm s)) = length (costList s) \<and>
         (\<forall>i < length (costList s).
            s_c (costList (applyDiscounts sm cm s) ! i) = s_c (costList s ! i) \<and>
            incCost (costList (applyDiscounts sm cm s) ! i) = incCost (costList s ! i) \<and>
            discountedCost (costList (applyDiscounts sm cm s) ! i)
              = Some (catalogCost (costList s ! i) * (if i = 0 then sm else cm))) \<and>
         totalCost (applyDiscounts sm cm s)
           = sum_list (map includedCost (costList (applyDiscounts sm cm s))) \<and>
         totalCost (applyDiscounts sm cm s)
           = (if incCost (shipItem s) = Some True then catalogCost (shipItem s) * sm else 0)
             + sum_list (map (\<lambda>x. if incCost x = Some True then catalogCost x * cm else 0)
                             (internal s @ standard s @ hardpoints s @ [bulkheads s])) \<and>
         shipCostMultiplier (applyDiscounts sm cm s) = sm \<and>
         componentCostMultiplier (applyDiscounts sm cm s) = cm"
proof -
  define rest where "rest = internal s @ standard s @ hardpoints s @ [bulkheads s]"
  have cl: "costList s = shipItem s # rest" by (simp add: costList_def rest_def)
  from assms have hullT: "stype (shipItem s) = Some SHIP"
    and restT: "\<forall>x \<in> set rest. stype x \<noteq> Some SHIP"
    and tidy: "\<forall>x \<in> set (costList s). hasCost x \<or> discountedCost x = Some 0"
    unfolding costListShaped_def list_all_iff rest_def by blast+
  have A: "\<forall>i < length (costList s).
            s_c (costList (applyDiscounts sm cm s) ! i) = s_c (costList s ! i) \<and>
            incCost (costList (applyDiscounts sm cm s) ! i) = incCost (costList s ! i) \<and>
            discountedCost (costList (applyDiscounts sm cm s) ! i)
              = Some (catalogCost (costList s ! i) * (if i = 0 then sm else cm))"
  proof (intro allI impI)
    fix i assume i: "i < length (costList s)"
    then have mem: "costList s ! i \<in> set (costList s)" by simp
    with tidy have t: "hasCost (costList s ! i) \<or> discountedCost (costList s ! i) = Some 0" by blast
    have ty: "(stype (costList s ! i) = Some SHIP) = (i = 0)"
    proof (cases i)
      case 0 then show ?thesis using hullT by (simp add: cl)
    next
      case (Suc j)
      with i have "j < length rest" by (simp add: cl)
      then have "rest ! j \<in> set rest" by (rule nth_mem)
      with restT have "stype (rest ! j) \<noteq> Some SHIP" by blast
      with Suc show ?thesis by (simp add: cl)
    qed
    show "s_c (costList (applyDiscounts sm cm s) ! i) = s_c (costList s ! i) \<and>
            incCost (costList (applyDiscounts sm cm s) ! i) = incCost (costList s ! i) \<and>
            discountedCost (costList (applyDiscounts sm cm s) ! i)
              = Some (catalogCost (costList s ! i) * (if i = 0 then sm else cm))"
      using i t ty by (simp add: applyDiscounts_costList discountItem_fields discountItem_cost)
  qed
  have B: "totalCost (applyDiscounts sm cm s)
           = sum_list (map includedCost (costList (applyDiscounts sm cm s)))"
    using tidy
    by (simp add: applyDiscounts_total applyDiscounts_costList o_def itemTotal_discountItem cong: map_cong)
  have restsum: "sum_list (map (\<lambda>x. includedCost (discountItem sm cm x)) rest)
        = sum_list (map (\<lambda>x. if incCost x = Some True then catalogCost x * cm else 0) rest)"
  proof (rule arg_cong[where f = sum_list], rule map_cong[OF refl])
    fix x assume x: "x \<in> set rest"
    then have "x \<in> set (costList s)" by (simp add: cl)
    with tidy have "hasCost x \<or> discountedCost x = Some 0" by blast
    moreover from x restT have "stype x \<noteq> Some SHIP" by blast
    ultimately show "includedCost (discountItem sm cm x)
        = (if incCost x = Some True then catalogCost x * cm else 0)"
      by (simp add: includedCost_discountItem)
  qed
  have "shipItem s \<in> set (costList s)" by (simp add: cl)
  with tidy have "hasCost (shipItem s) \<or> discountedCost (shipItem s) = Some 0" by blast
  with hullT have hull: "includedCost (discountItem sm cm (shipItem s))
        = (if incCost (shipItem s) = Some True then catalogCost (shipItem s) * sm else 0)"
    by (simp add: includedCost_discountItem)
  have C: "totalCost (applyDiscounts sm cm s)
           = (if incCost (shipItem s) = Some True then catalogCost (shipItem s) * sm else 0)
             + sum_list (map (\<lambda>x. if incCost x = Some True then catalogCost x * cm else 0) rest)"
    unfolding B applyDiscounts_costList using restsum hull
    by (simp only: cl list.map sum_list.Cons map_map o_def)
  have D: "shipCostMultiplier (applyDiscounts sm cm s) = sm \<and>
         componentCostMultiplier (applyDiscounts sm cm s) = cm"
    by (simp add: applyDiscounts_def Let_def)
  have E: "length (costList (applyDiscounts sm cm s)) = length (costList s)"
    by (simp add: applyDiscounts_costList)
  show ?thesis using A B C[unfolded rest_def] D E by blast
qed

lemma demo_costListShaped: "costListShaped demoBuilt"
  by (simp add: costListShaped_def costList_def hasCost_def demoBuilt_def demo_defs Ship_def hullRecord_def)

theorem applyDiscounts_costs_witness:
  "costListShaped demoBuilt \<and>
   totalCost (applyDiscounts (9 / 10) (3 / 4) demoBuilt) = 4000 * (9 / 10) + 240 * (3 / 4) \<and>
   discountedCost (costList (applyDiscounts (9 / 10) (3 / 4) demoBuilt) ! 0) = Some 3600"
proof -
  have len: "0 < length (costList demoBuilt)" by (simp add: costList_def)
  have c0: "catalogCost (costList demoBuilt ! 0) = 4000"
    by (simp add: costList_def catalogCost_def demoBuilt_def demo_defs Ship_def hullRecord_def)
  have inc: "incCost (shipItem demoBuilt) = Some True" "catalogCost (shipItem demoBuilt) = 4000"
    by (simp_all add: catalogCost_def demoBuilt_def demo_defs Ship_def hullRecord_def)
  have rest: "sum_list (map (\<lambda>x. if incCost x = Some True then catalogCost x * (3 / 4) else 0)
                 (internal demoBuilt @ standard demoBuilt @ hardpoints demoBuilt @ [bulkheads demoBuilt]))
              = 240 * (3 / 4)"
    by (simp add: catalogCost_def demoBuilt_def demo_defs Ship_def)
  from applyDiscounts_costs[OF demo_costListShaped, of "9 / 10" "3 / 4"] len c0 inc rest
  show ?thesis using demo_costListShaped by simp
qed

subsection \<open>updateStats and use in normal form\<close>



lemma bandPut_length [simp]: "length (bandPut x ko sg bs) = length bs"
  by (simp add: bandPut_def split: option.split)

lemma bandPut_None [simp]: "bandPut x None sg bs = bs"
  by (simp add: bandPut_def)

lemma contrib_None [simp]:
  "fuelC None = 0" "cargoC None = 0" "armourC None = 0" "boostC x None = 0" "costC x m None = 0"
  "massC None = 0" "dpsC x None = 0" "\<not> draws x None" "bandOK x None n" "drawC x None t u = 0"
  by (simp_all add: fuelC_def cargoC_def armourC_def boostC_def costC_def massC_def dpsC_def draws_def bandOK_def drawC_def)











lemma get_put_other: "r \<noteq> r' \<Longrightarrow> get_slot (put_slot r y s) r' = get_slot s r'"
  by (cases r; cases r') simp_all

lemma vacateSimilar_quiet: "vacateSimilar G r x ko True s = Inr s"
  by (simp add: vacateSimilar_def split: option.split)





lemma rawBands_length: "rawBands bs = rawBands bs' \<Longrightarrow> length bs = length bs'"
  by (metis length_map rawBands_def)

lemma put_slot_fields [simp]:
  "shipCostMultiplier (put_slot r y s) = shipCostMultiplier s"
  "componentCostMultiplier (put_slot r y s) = componentCostMultiplier s"
  "priorityBands (put_slot r y s) = priorityBands s"
  "fuelCapacity (put_slot r y s) = fuelCapacity s"
  "cargoCapacity (put_slot r y s) = cargoCapacity s"
  "ladenMass (put_slot r y s) = ladenMass s"
  "armourAdded (put_slot r y s) = armourAdded s"
  "armourMultiplier (put_slot r y s) = armourMultiplier s"
  "shieldMultiplier (put_slot r y s) = shieldMultiplier s"
  "totalCost (put_slot r y s) = totalCost s"
  "unladenMass (put_slot r y s) = unladenMass s"
  "totalDps (put_slot r y s) = totalDps s"
  "armour (put_slot r y s) = armour s"
  "ship_id (put_slot r y s) = ship_id s"
  "hullMass (put_slot r y s) = hullMass s"
  "hullCost (put_slot r y s) = hullCost s"
  "baseArmour (put_slot r y s) = baseArmour s"
  "baseShieldStrength (put_slot r y s) = baseShieldStrength s"
  "speed (put_slot r y s) = speed s"
  "boost (put_slot r y s) = boost s"
  "pipSpeed (put_slot r y s) = pipSpeed s"
  by (cases r; simp)+

lemma statsCore_slots [simp]:
  "standard (statsCore x n old s) = standard s"
  "hardpoints (statsCore x n old s) = hardpoints s"
  "internal (statsCore x n old s) = internal s"
  "bulkheads (statsCore x n old s) = bulkheads s"
  "cargoHatch (statsCore x n old s) = cargoHatch s"
  "shipItem (statsCore x n old s) = shipItem s"
  "componentCostMultiplier (statsCore x n old s) = componentCostMultiplier s"
  "shipCostMultiplier (statsCore x n old s) = shipCostMultiplier s"
  by (simp_all add: statsCore_def)

lemma statsCore_get_slot [simp]: "get_slot (statsCore x n old s) r = get_slot s r"
  by (cases r) simp_all


lemma fit_contrib [simp]:
  "boostC (fit x i k m) = boostC x" "costC (fit x i k m) = costC x" "draws (fit x i k m) = draws x"
  "dpsC (fit x i k m) = dpsC x" "drawC (fit x i k m) = drawC x" "bandOK (fit x i k m) = bandOK x"
  "bandPut (fit x i k m) = bandPut x"
  by (auto simp: fun_eq_iff boostC_def costC_def draws_def dpsC_def drawC_def bandOK_def bandPut_def
      fit_def powerUsageType_def split: option.splits)

lemma rawBands_update:
  "rawBands (bs[t := b]) = (rawBands bs)[t := (deployed b, retracted b, retOnly b)]"
  by (simp add: rawBands_def map_update)

lemma rawBands_nth:
  "t < length bs \<Longrightarrow> rawBands bs ! t = (deployed (bs ! t), retracted (bs ! t), retOnly (bs ! t))"
  by (simp add: rawBands_def)


lemma rawPut_fit [simp]: "rawPut (fit x i k m) = rawPut x"
  by (auto simp: fun_eq_iff rawPut_def fit_def powerUsageType_def draws_def split: option.splits)


subsection \<open>Lists\<close>





subsection \<open>Unique groups\<close>



lemma matchesGroup_emptied [simp]: "\<not> matchesGroup g (emptied y)"
  by (simp add: matchesGroup_def emptied_def)








end
